theory Spec2Isabelle
  imports Main "HOL-Library.Sublist"
begin

section \<open>The VideoLingo installer (install.py)\<close>

text \<open>
  The installer is a sequential script: it classifies the runtime (Google Colab or a
  local machine), checks which requirements are already installed, installs packages
  with pip, probes the NVIDIA driver library, checks for the ffmpeg binary and starts
  the application. Everything it does beyond computing on strings is an effect on the
  outside world. The model makes the outside world explicit: an environment answers
  every question the script asks (which modules can be imported, what a subprocess
  returns, what the driver library reports), and a world value carries the files the
  script reads and writes together with the trace of the effects performed so far.

  Text is modelled with Isabelle strings; a character stands for the code point of the
  same number, so the model covers text whose code points are below 256.
\<close>

subsection \<open>Python string operations used by the script\<close>

text \<open>
  \<^verbatim>\<open>str.isspace\<close> for one character: the code points below 256 that Python
  treats as whitespace are 9 to 13, 28 to 32, 133 and 160.
\<close>

definition is_space :: "char \<Rightarrow> bool" where
  "is_space c =
     (let n = (of_char c :: nat)
      in (9 \<le> n \<and> n \<le> 13) \<or> (28 \<le> n \<and> n \<le> 32) \<or> n = 133 \<or> n = 160)"

text \<open>
  The line boundaries of \<^verbatim>\<open>str.splitlines\<close> below 256: LF (10), VT (11), FF (12),
  FS (28), GS (29), RS (30) and NEL (133). CR (13) is a boundary too and is treated
  separately, because CR followed by LF is one boundary.
\<close>

definition is_linebreak :: "char \<Rightarrow> bool" where
  "is_linebreak c =
     (let n = (of_char c :: nat)
      in (10 \<le> n \<and> n \<le> 12) \<or> (28 \<le> n \<and> n \<le> 30) \<or> n = 133)"

text \<open>
  \<^verbatim>\<open>s.splitlines()\<close>: the first argument is the line collected so far. A boundary
  closes the current line; text after the last boundary is a line only when it is not
  empty, so the empty string has no lines and a final newline adds none.
\<close>

fun splitlines_from :: "string \<Rightarrow> string \<Rightarrow> string list" where
  "splitlines_from acc [] = (if acc = [] then [] else [acc])"
| "splitlines_from acc [c] =
     (if c = CHR 0x0D \<or> is_linebreak c then [acc] else [acc @ [c]])"
| "splitlines_from acc (c # d # cs) =
     (if c = CHR 0x0D \<and> d = CHR 0x0A then acc # splitlines_from [] cs
      else if c = CHR 0x0D \<or> is_linebreak c then acc # splitlines_from [] (d # cs)
      else splitlines_from (acc @ [c]) (d # cs))"

definition splitlines :: "string \<Rightarrow> string list" where
  "splitlines s = splitlines_from [] s"

text \<open>\<^verbatim>\<open>s.strip()\<close>: whitespace removed at both ends.\<close>

definition lstrip :: "string \<Rightarrow> string" where
  "lstrip s = dropWhile is_space s"

definition rstrip :: "string \<Rightarrow> string" where
  "rstrip s = rev (dropWhile is_space (rev s))"

definition strip :: "string \<Rightarrow> string" where
  "strip s = rstrip (lstrip s)"

text \<open>\<^verbatim>\<open>s.startswith(p)\<close>, by comparing character by character.\<close>

fun startswith :: "string \<Rightarrow> string \<Rightarrow> bool" where
  "startswith s [] = True"
| "startswith [] (p # ps) = False"
| "startswith (c # cs) (p # ps) = (c = p \<and> startswith cs ps)"

text \<open>\<^verbatim>\<open>sep in s\<close>: the separator occurs somewhere in the string.\<close>

fun contains :: "string \<Rightarrow> string \<Rightarrow> bool" where
  "contains [] sep = (sep = [])"
| "contains (c # cs) sep = (startswith (c # cs) sep \<or> contains cs sep)"

text \<open>
  \<^verbatim>\<open>s.split(sep)[0]\<close> for a non-empty separator: the text before the first
  occurrence of the separator, the whole string when there is none.
\<close>

fun split_head :: "string \<Rightarrow> string \<Rightarrow> string" where
  "split_head [] sep = []"
| "split_head (c # cs) sep =
     (if startswith (c # cs) sep then [] else c # split_head cs sep)"

text \<open>\<^verbatim>\<open>sep.join(xs)\<close>.\<close>

fun join :: "string \<Rightarrow> string list \<Rightarrow> string" where
  "join sep [] = []"
| "join sep [x] = x"
| "join sep (x # y # ys) = x @ sep @ join sep (y # ys)"

subsection \<open>Exceptions, effects and the outside world\<close>

text \<open>
  The exceptions that occur in the script. \<open>CalledProcessError\<close> carries the command
  and its return code, \<open>SystemExit\<close> its message.
\<close>

datatype py_exc =
    ImportError
  | CalledProcessError "string list" int
  | FileNotFoundError
  | NVMLError
  | DistributionNotFound
  | UnboundLocalError
  | SystemExit string
  | OtherError string

text \<open>
  What starting a program and waiting for it gives: its return code, or no such
  program (Python raises \<open>FileNotFoundError\<close> when the executable does not exist).
\<close>

datatype proc_result = Returned int | NoSuchProgram

text \<open>
  The observable effects, in the order the script performs them. A subprocess is
  recorded with its command line and the environment variables added for it. Console
  output is recorded with its text; the emoji that open some messages are left out, and
  the three messages built from values have a constructor of their own.
\<close>

datatype event =
    Print string
  | PrintLogo
  | PrintGpu nat string
  | PrintFfmpegNotFound string string
  | PrintInstallFailed py_exc
  | Run "string list" "(string \<times> string) list"
  | Spawn "string list"
  | WriteFile string string
  | RemoveFile string
  | ChooseMirror

text \<open>
  The environment: the answers of everything outside the script. \<open>importable\<close> says
  whether importing a module succeeds, \<open>proc\<close> what running a command gives,
  \<open>get_distribution\<close> is \<^verbatim>\<open>pkg_resources.get_distribution(name).version\<close>,
  \<open>choose_mirror\<close> the outcome of importing and calling the mirror chooser of
  \<^verbatim>\<open>core.pypi_autochoose\<close>, and the \<open>nvml\<close> fields are the calls of the pynvml
  library, each of which returns or raises. The answers are fixed for a run: the same
  command gives the same result each time it is started, and no subprocess changes the
  files the script reads and writes.
\<close>

record env =
  importable :: "string \<Rightarrow> bool"
  executable :: string
  platform_system :: string
  proc :: "string list \<Rightarrow> proc_result"
  get_distribution :: "string \<Rightarrow> py_exc + string"
  choose_mirror :: "py_exc option"
  nvmlInit :: "py_exc option"
  nvmlDeviceGetCount :: "py_exc + nat"
  nvmlDeviceGetHandleByIndex :: "nat \<Rightarrow> py_exc + nat"
  nvmlDeviceGetName :: "nat \<Rightarrow> py_exc + string"
  nvmlShutdown :: "py_exc option"

text \<open>
  The world the script changes: the text files in the working directory (by name, with
  the text that reading them returns) and the trace of effects so far.
\<close>

record world =
  files :: "string \<rightharpoonup> string"
  trace :: "event list"

text \<open>
  A step of the script takes the world and returns the changed world together with
  either the exception it raised (\<open>Inl\<close>) or its result (\<open>Inr\<close>).
\<close>

type_synonym 'a io = "world \<Rightarrow> (py_exc + 'a) \<times> world"

definition emit :: "event \<Rightarrow> world \<Rightarrow> world" where
  "emit e w = w\<lparr>trace := trace w @ [e]\<rparr>"

definition io_return :: "'a \<Rightarrow> 'a io" where
  "io_return x w = (Inr x, w)"

definition io_raise :: "py_exc \<Rightarrow> 'a io" where
  "io_raise e w = (Inl e, w)"

definition io_bind :: "'a io \<Rightarrow> ('a \<Rightarrow> 'b io) \<Rightarrow> 'b io" where
  "io_bind m f w = (case m w of (Inl e, w') \<Rightarrow> (Inl e, w') | (Inr x, w') \<Rightarrow> f x w')"

definition io_then :: "'a io \<Rightarrow> 'b io \<Rightarrow> 'b io" where
  "io_then m k = io_bind m (\<lambda>_. k)"

definition say :: "string \<Rightarrow> unit io" where
  "say s w = (Inr (), emit (Print s) w)"

definition tell :: "event \<Rightarrow> unit io" where
  "tell e w = (Inr (), emit e w)"

text \<open>
  \<^verbatim>\<open>subprocess.check_call(cmd, env=...)\<close> and \<^verbatim>\<open>subprocess.run(cmd, check=True)\<close>:
  the command is started and waited for; a missing executable raises
  \<open>FileNotFoundError\<close>, a return code other than 0 raises \<open>CalledProcessError\<close>.
\<close>

definition check_call :: "env \<Rightarrow> string list \<Rightarrow> (string \<times> string) list \<Rightarrow> unit io" where
  "check_call env cmd extra w =
     (let w' = emit (Run cmd extra) w
      in case proc env cmd of
           NoSuchProgram \<Rightarrow> (Inl FileNotFoundError, w')
         | Returned rc \<Rightarrow>
             if rc = 0 then (Inr (), w') else (Inl (CalledProcessError cmd rc), w'))"

text \<open>\<^verbatim>\<open>subprocess.Popen(cmd)\<close>: the program is started and not waited for.\<close>

definition popen :: "env \<Rightarrow> string list \<Rightarrow> unit io" where
  "popen env cmd w =
     (let w' = emit (Spawn cmd) w
      in case proc env cmd of
           NoSuchProgram \<Rightarrow> (Inl FileNotFoundError, w')
         | Returned rc \<Rightarrow> (Inr (), w'))"

subsection \<open>Environment classification and package installation\<close>

text \<open>
  \<^verbatim>\<open>
  def is_colab():
      try:
          import google.colab
          return True
      except ImportError:
          return False
  \<close>
\<close>

definition is_colab :: "env \<Rightarrow> bool" where
  "is_colab env = importable env ''google.colab''"

text \<open>
  \<^verbatim>\<open>
  def install_package( *packages ):
      subprocess.check_call([sys.executable, "-m", "pip", "install", *packages])
  \<close>
\<close>

definition pip_install :: "env \<Rightarrow> string list \<Rightarrow> string list" where
  "pip_install env args = [executable env, ''-m'', ''pip'', ''install''] @ args"

definition install_package :: "env \<Rightarrow> string list \<Rightarrow> unit io" where
  "install_package env packages = check_call env (pip_install env packages) []"

subsection \<open>The GPU probe\<close>

text \<open>
  \<^verbatim>\<open>
  def check_nvidia_gpu():
      install_package("pynvml")
      import pynvml
      try:
          pynvml.nvmlInit()
          device_count = pynvml.nvmlDeviceGetCount()
          if device_count > 0:
              print(f"Detected NVIDIA GPU(s)")
              for i in range(device_count):
                  handle = pynvml.nvmlDeviceGetHandleByIndex(i)
                  name = pynvml.nvmlDeviceGetName(handle)
                  print(f"GPU {i}: {name}")
              return True
          else:
              print("No NVIDIA GPU detected")
              return False
      except pynvml.NVMLError:
          print("No NVIDIA GPU detected or NVIDIA drivers not properly installed")
          return False
      finally:
          pynvml.nvmlShutdown()
  \<close>
  The loop over the devices is \<open>print_gpus\<close>, the body of the \<^verbatim>\<open>try\<close> is
  \<open>gpu_try\<close>, the body with its \<^verbatim>\<open>except\<close> clause is \<open>gpu_except\<close>. The
  \<^verbatim>\<open>finally\<close> clause runs whatever the outcome; an exception it raises replaces
  the pending result.
\<close>

fun print_gpus :: "env \<Rightarrow> nat list \<Rightarrow> unit io" where
  "print_gpus env [] w = (Inr (), w)"
| "print_gpus env (i # is) w =
     (case nvmlDeviceGetHandleByIndex env i of
        Inl e \<Rightarrow> (Inl e, w)
      | Inr handle \<Rightarrow>
          (case nvmlDeviceGetName env handle of
             Inl e \<Rightarrow> (Inl e, w)
           | Inr name \<Rightarrow> print_gpus env is (emit (PrintGpu i name) w)))"

definition gpu_try :: "env \<Rightarrow> bool io" where
  "gpu_try env w =
     (case nvmlInit env of
        Some e \<Rightarrow> (Inl e, w)
      | None \<Rightarrow>
          (case nvmlDeviceGetCount env of
             Inl e \<Rightarrow> (Inl e, w)
           | Inr device_count \<Rightarrow>
               if device_count > 0
               then io_then (say ''Detected NVIDIA GPU(s)'')
                      (io_then (print_gpus env [0..<device_count]) (io_return True)) w
               else io_then (say ''No NVIDIA GPU detected'') (io_return False) w))"

definition gpu_except :: "env \<Rightarrow> bool io" where
  "gpu_except env w =
     (case gpu_try env w of
        (Inl NVMLError, w') \<Rightarrow>
          io_then (say ''No NVIDIA GPU detected or NVIDIA drivers not properly installed'')
            (io_return False) w'
      | r \<Rightarrow> r)"

definition check_nvidia_gpu :: "env \<Rightarrow> bool io" where
  "check_nvidia_gpu env =
     io_then (install_package env [''pynvml''])
       (\<lambda>w. if \<not> importable env ''pynvml'' then (Inl ImportError, w)
            else (case gpu_except env w of
                    (r, w') \<Rightarrow>
                      (case nvmlShutdown env of
                         Some e \<Rightarrow> (Inl e, w')
                       | None \<Rightarrow> (r, w'))))"

subsection \<open>The toolchain check\<close>

text \<open>
  The non-Colab branch of \<^verbatim>\<open>check_ffmpeg\<close> (lines 66 to 77 of install.py) picks
  the install command and the note from \<^verbatim>\<open>platform.system()\<close>:
  \<^verbatim>\<open>
  install_cmd = ""
  if system == "Windows":
      install_cmd = "choco install ffmpeg"
      extra_note = "Install Chocolatey first (https://chocolatey.org/)"
  elif system == "Darwin":
      install_cmd = "brew install ffmpeg"
      extra_note = "Install Homebrew first (https://brew.sh/)"
  elif system == "Linux":
      install_cmd = "sudo apt install ffmpeg  # Ubuntu/Debian\nsudo yum install ffmpeg  # CentOS/RHEL"
      extra_note = "Use your distribution's package manager"
  \<close>
  Only \<^verbatim>\<open>install_cmd\<close> has a value on every path: on any other system the message
  that follows reads \<^verbatim>\<open>extra_note\<close> unbound, which raises \<open>UnboundLocalError\<close>.
\<close>

definition ffmpeg_guidance :: "string \<Rightarrow> py_exc + string \<times> string" where
  "ffmpeg_guidance system =
     (if system = ''Windows''
      then Inr (''choco install ffmpeg'', ''Install Chocolatey first (https://chocolatey.org/)'')
      else if system = ''Darwin''
      then Inr (''brew install ffmpeg'', ''Install Homebrew first (https://brew.sh/)'')
      else if system = ''Linux''
      then Inr (''sudo apt install ffmpeg  # Ubuntu/Debian'' @ [CHR 0x0A] @
                ''sudo yum install ffmpeg  # CentOS/RHEL'',
                ''Use your distribution'' @ [CHR 0x27] @ ''s package manager'')
      else Inl UnboundLocalError)"

text \<open>
  \<^verbatim>\<open>
  except (subprocess.CalledProcessError, FileNotFoundError):
      if is_colab():
          subprocess.run(['apt-get', 'update'], check=True)
          subprocess.run(['apt-get', 'install', '-y', 'ffmpeg'], check=True)
          console.print(Panel("FFmpeg has been installed", style="green"))
          return True
      else:
          ...
          console.print(Panel.fit(f"FFmpeg not found ... {install_cmd} ... {extra_note} ..."))
          raise SystemExit("FFmpeg is required. Please install it and run the installer again.")
  \<close>
\<close>

definition ffmpeg_missing :: "env \<Rightarrow> bool io" where
  "ffmpeg_missing env =
     (if is_colab env
      then io_then (check_call env [''apt-get'', ''update''] [])
             (io_then (check_call env [''apt-get'', ''install'', ''-y'', ''ffmpeg''] [])
                (io_then (say ''FFmpeg has been installed'') (io_return True)))
      else (case ffmpeg_guidance (platform_system env) of
              Inl e \<Rightarrow> io_raise e
            | Inr (install_cmd, extra_note) \<Rightarrow>
                io_then (tell (PrintFfmpegNotFound install_cmd extra_note))
                  (io_raise (SystemExit
                     ''FFmpeg is required. Please install it and run the installer again.''))))"

text \<open>
  \<^verbatim>\<open>
  def check_ffmpeg():
      from rich.console import Console
      from rich.panel import Panel
      console = Console()
      try:
          subprocess.run(['ffmpeg', '-version'], stdout=subprocess.PIPE, stderr=subprocess.PIPE, check=True)
          console.print(Panel("FFmpeg is already installed", style="green"))
          return True
      except (subprocess.CalledProcessError, FileNotFoundError):
          ...
  \<close>
\<close>

definition check_ffmpeg :: "env \<Rightarrow> bool io" where
  "check_ffmpeg env w =
     (if \<not> importable env ''rich'' then (Inl ImportError, w)
      else (case check_call env [''ffmpeg'', ''-version''] [] w of
              (Inr u, w') \<Rightarrow> io_then (say ''FFmpeg is already installed'') (io_return True) w'
            | (Inl (CalledProcessError cmd rc), w') \<Rightarrow> ffmpeg_missing env w'
            | (Inl FileNotFoundError, w') \<Rightarrow> ffmpeg_missing env w'
            | (Inl e, w') \<Rightarrow> (Inl e, w')))"

subsection \<open>The requirements check\<close>

text \<open>
  \<^verbatim>\<open>
  def check_package_version(package_name):
      try:
          import pkg_resources
          version = pkg_resources.get_distribution(package_name).version
          return version
      except pkg_resources.DistributionNotFound:
          return None
  \<close>
  When the import itself fails, the \<^verbatim>\<open>except\<close> clause reads the name
  \<^verbatim>\<open>pkg_resources\<close> unbound.
\<close>

definition check_package_version :: "env \<Rightarrow> string \<Rightarrow> py_exc + string option" where
  "check_package_version env package_name =
     (if \<not> importable env ''pkg_resources'' then Inl UnboundLocalError
      else (case get_distribution env package_name of
              Inr version \<Rightarrow> Inr (Some version)
            | Inl DistributionNotFound \<Rightarrow> Inr None
            | Inl e \<Rightarrow> Inl e))"

text \<open>
  The list comprehension of line 102:
  \<^verbatim>\<open>[r.strip() for r in requirements if r.strip() and not r.startswith('#')]\<close>
\<close>

definition parse_requirements :: "string \<Rightarrow> string list" where
  "parse_requirements content =
     [strip r. r \<leftarrow> splitlines content, strip r \<noteq> [] \<and> \<not> startswith r ''#'']"

text \<open>
  \<^verbatim>\<open>
  if '==' in req:
      package_name = req.split('==')[0]
  elif '>=' in req:
      package_name = req.split('>=')[0]
  else:
      package_name = req
  \<close>
\<close>

definition package_name_of :: "string \<Rightarrow> string" where
  "package_name_of req =
     (if contains req ''=='' then split_head req ''==''
      else if contains req ''>='' then split_head req ''>=''
      else req)"

text \<open>The loop over the requirements: the first package that is not found ends it.\<close>

fun all_installed :: "env \<Rightarrow> string list \<Rightarrow> py_exc + bool" where
  "all_installed env [] = Inr True"
| "all_installed env (req # reqs) =
     (case check_package_version env (package_name_of req) of
        Inl e \<Rightarrow> Inl e
      | Inr None \<Rightarrow> Inr False
      | Inr (Some version) \<Rightarrow> all_installed env reqs)"

text \<open>
  \<^verbatim>\<open>
  def check_requirements_satisfied():
      try:
          with open('requirements.txt', 'r') as f:
              requirements = f.read().splitlines()
          requirements = [...]
          for req in requirements:
              ...
              if check_package_version(package_name) is None:
                  return False
          return True
      except FileNotFoundError:
          return False
  \<close>
  The function reads the world and does not change it.
\<close>

definition check_requirements_satisfied :: "env \<Rightarrow> world \<Rightarrow> py_exc + bool" where
  "check_requirements_satisfied env w =
     (case files w ''requirements.txt'' of
        None \<Rightarrow> Inr False
      | Some content \<Rightarrow>
          (case all_installed env (parse_requirements content) of
             Inl FileNotFoundError \<Rightarrow> Inr False
           | r \<Rightarrow> r))"

subsection \<open>The dependency installer\<close>

text \<open>
  \<^verbatim>\<open>
  def install_requirements():
      try:
          if is_colab():
              with open('requirements.txt', 'r') as f:
                  requirements = f.read().splitlines()
              requirements = [r for r in requirements if not r.startswith('torch')]
              with open('requirements_temp.txt', 'w') as f:
                  f.write('\n'.join(requirements))
              subprocess.check_call([sys.executable, "-m", "pip", "install", "-r",
                  "requirements_temp.txt"], env={**os.environ, "PIP_NO_CACHE_DIR": "0", "PYTHONIOENCODING": "utf-8"})
              os.remove('requirements_temp.txt')
          else:
              subprocess.check_call([sys.executable, "-m", "pip", "install", "-r",
                  "requirements.txt"], env={**os.environ, "PIP_NO_CACHE_DIR": "0", "PYTHONIOENCODING": "utf-8"})
      except subprocess.CalledProcessError as e:
          console.print(Panel(f"Failed to install requirements: {str(e)}", style="red"))
  \<close>
\<close>

definition filter_torch :: "string \<Rightarrow> string" where
  "filter_torch content =
     join [CHR 0x0A] [r. r \<leftarrow> splitlines content, \<not> startswith r ''torch'']"

definition read_file :: "string \<Rightarrow> string io" where
  "read_file name w =
     (case files w name of None \<Rightarrow> (Inl FileNotFoundError, w) | Some content \<Rightarrow> (Inr content, w))"

definition write_file :: "string \<Rightarrow> string \<Rightarrow> unit io" where
  "write_file name content w =
     (Inr (), emit (WriteFile name content) (w\<lparr>files := (files w)(name \<mapsto> content)\<rparr>))"

definition remove_file :: "string \<Rightarrow> unit io" where
  "remove_file name w =
     (case files w name of
        None \<Rightarrow> (Inl FileNotFoundError, w)
      | Some content \<Rightarrow> (Inr (), emit (RemoveFile name) (w\<lparr>files := (files w)(name := None)\<rparr>)))"

definition pip_env :: "(string \<times> string) list" where
  "pip_env = [(''PIP_NO_CACHE_DIR'', ''0''), (''PYTHONIOENCODING'', ''utf-8'')]"

definition install_requirements_try :: "env \<Rightarrow> unit io" where
  "install_requirements_try env =
     (if is_colab env
      then io_bind (read_file ''requirements.txt'') (\<lambda>content.
             io_then (write_file ''requirements_temp.txt'' (filter_torch content))
               (io_then (check_call env (pip_install env [''-r'', ''requirements_temp.txt'']) pip_env)
                  (remove_file ''requirements_temp.txt'')))
      else check_call env (pip_install env [''-r'', ''requirements.txt'']) pip_env)"

definition install_requirements :: "env \<Rightarrow> unit io" where
  "install_requirements env w =
     (case install_requirements_try env w of
        (Inl (CalledProcessError cmd rc), w') \<Rightarrow> tell (PrintInstallFailed (CalledProcessError cmd rc)) w'
      | r \<Rightarrow> r)"

subsection \<open>The main procedure and the exit code\<close>

text \<open>
  Lines 155 to 167: the mirror chooser, the GPU probe (not called on macOS, where
  \<^verbatim>\<open>and\<close> stops at its first operand) and the PyTorch install.
\<close>

definition call_choose_mirror :: "env \<Rightarrow> unit io" where
  "call_choose_mirror env =
     (case choose_mirror env of Some e \<Rightarrow> io_raise e | None \<Rightarrow> tell ChooseMirror)"

definition install_torch :: "env \<Rightarrow> unit io" where
  "install_torch env =
     io_then (call_choose_mirror env)
       (io_bind (if platform_system env \<noteq> ''Darwin'' then check_nvidia_gpu env else io_return False)
          (\<lambda>has_gpu.
             if has_gpu
             then io_then (say ''NVIDIA GPU detected, installing CUDA version of PyTorch...'')
                    (check_call env
                       (pip_install env [''torch==2.0.0'', ''torchaudio==2.0.0'', ''--index-url'',
                          ''https://download.pytorch.org/whl/cu118'']) [])
             else io_then
                    (say ((if platform_system env = ''Darwin'' then ''MacOS'' else ''No NVIDIA GPU'') @
                       '' detected, installing CPU version of PyTorch... However, it would be extremely slow for transcription.''))
                    (check_call env (pip_install env [''torch==2.1.2'', ''torchaudio==2.1.2'']) [])))"

text \<open>Lines 204 to 215: the closing messages and the launch of the application.\<close>

definition announce_and_launch :: "env \<Rightarrow> unit io" where
  "announce_and_launch env =
     io_then (say ''Installation completed'')
    (io_then (say ''To start the application, run:'')
    (io_then (say ''[bold cyan]streamlit run st.py[/bold cyan]'')
    (io_then (say ''[yellow]Note: First startup may take up to 1 minute[/yellow]'')
    (io_then (say (CHR 0x0A # ''[yellow]If the application fails to start:[/yellow]''))
    (io_then (say ''1. [yellow]Check your network connection[/yellow]'')
    (io_then (say ''2. [yellow]Re-run the installer: [bold]python install.py[/bold][/yellow]'')
       (popen env [''streamlit'', ''run'', ''st.py''])))))))"

text \<open>Lines 201 to 215: what follows the PyTorch setup.\<close>

definition install_and_finish :: "env \<Rightarrow> unit io" where
  "install_and_finish env =
     io_then (install_requirements env)
       (io_then (check_ffmpeg env) (announce_and_launch env))"

text \<open>Lines 138 to 215: the full installer path.\<close>

definition full_install :: "env \<Rightarrow> unit io" where
  "full_install env =
     io_then (install_package env [''requests'', ''rich'', ''ruamel.yaml''])
    (io_then (tell PrintLogo)
    (io_then (say ''Starting Installation'')
    (io_then (if is_colab env then say ''Running in Google Colab environment''
              else install_torch env)
       (install_and_finish env))))"

text \<open>Lines 131 to 136: the early return of the hosted runtime.\<close>

definition report_ready :: "env \<Rightarrow> unit io" where
  "report_ready env =
     io_then (say ''All required packages are already installed'')
    (io_then (check_ffmpeg env)
    (io_then (say ''Ready to use!'')
    (io_then (say ''To start the application, run:'')
       (say ''[bold cyan]streamlit run st.py[/bold cyan]''))))"

text \<open>
  \<^verbatim>\<open>
  def main():
      from rich.console import Console
      from rich.panel import Panel
      from rich.box import DOUBLE
      console = Console()
      if is_colab():
          console.print(Panel("Running in Google Colab environment", style="cyan"))
          if check_requirements_satisfied():
              ...
              return
      install_package("requests", "rich", "ruamel.yaml")
      ...
  \<close>
\<close>

definition main :: "env \<Rightarrow> unit io" where
  "main env w =
     (if \<not> importable env ''rich'' then (Inl ImportError, w)
      else if is_colab env
      then (let w1 = emit (Print ''Running in Google Colab environment'') w
            in case check_requirements_satisfied env w1 of
                 Inl e \<Rightarrow> (Inl e, w1)
               | Inr True \<Rightarrow> report_ready env w1
               | Inr False \<Rightarrow> full_install env w1)
      else full_install env w)"

text \<open>
  The exit status of \<^verbatim>\<open>python install.py\<close>: 0 when \<^verbatim>\<open>main\<close> returns, 1 when an
  exception leaves it (an uncaught exception and \<open>SystemExit\<close> with a message both
  give status 1).
\<close>

definition exit_code :: "env \<Rightarrow> world \<Rightarrow> nat" where
  "exit_code env w = (case fst (main env w) of Inl e \<Rightarrow> 1 | Inr u \<Rightarrow> 0)"

subsection \<open>Vocabulary of the properties\<close>




text \<open>The effects a step added to the trace, and the kinds of effect the properties count.\<close>

definition new_events :: "world \<Rightarrow> world \<Rightarrow> event list" where
  "new_events w w' = drop (length (trace w)) (trace w')"

definition is_write :: "event \<Rightarrow> bool" where
  "is_write e = (case e of WriteFile name content \<Rightarrow> True | _ \<Rightarrow> False)"

text \<open>Sample environments and worlds, on which the properties are evaluated.\<close>

definition local_env :: env where
  "local_env =
     \<lparr>importable = (\<lambda>m. m \<noteq> ''google.colab''),
      executable = ''python'',
      platform_system = ''Linux'',
      proc = (\<lambda>cmd. if cmd = [''ffmpeg'', ''-version''] then NoSuchProgram else Returned 0),
      get_distribution = (\<lambda>name. Inl DistributionNotFound),
      choose_mirror = None,
      nvmlInit = Some NVMLError,
      nvmlDeviceGetCount = Inr 0,
      nvmlDeviceGetHandleByIndex = (\<lambda>i. Inr i),
      nvmlDeviceGetName = (\<lambda>h. Inr ''GPU''),
      nvmlShutdown = None\<rparr>"

definition colab_env :: env where
  "colab_env =
     local_env\<lparr>importable := (\<lambda>m. True), get_distribution := (\<lambda>name. Inr ''1.0'')\<rparr>"

definition sample_requirements :: string where
  "sample_requirements =
     ''torch==2.0.0\<newline>torchaudio\<newline>requests\<newline># note\<newline>\<newline>torchvision>=0.15\<newline>rich==13.0''"

definition sample_world :: world where
  "sample_world = \<lparr>files = [''requirements.txt'' \<mapsto> sample_requirements], trace = []\<rparr>"

definition empty_world :: world where
  "empty_world = \<lparr>files = Map.empty, trace = []\<rparr>"

text \<open>An environment changed so that one command fails, or so that every command succeeds.\<close>

definition with_failing :: "string list \<Rightarrow> env \<Rightarrow> env" where
  "with_failing cmd env = env\<lparr>proc := (\<lambda>c. if c = cmd then Returned 1 else proc env c)\<rparr>"

definition with_ffmpeg :: "env \<Rightarrow> env" where
  "with_ffmpeg env = env\<lparr>proc := (\<lambda>c. Returned 0)\<rparr>"

definition colab_pip_fails_env :: env where
  "colab_pip_fails_env =
     with_failing [''python'', ''-m'', ''pip'', ''install'', ''-r'', ''requirements_temp.txt'']
       colab_env"

definition local_pip_fails_env :: env where
  "local_pip_fails_env =
     with_failing [''python'', ''-m'', ''pip'', ''install'', ''-r'', ''requirements.txt'']
       (with_ffmpeg local_env)"

text \<open>The file that the installer step hands to pip.\<close>

definition requirements_argument :: "env \<Rightarrow> string" where
  "requirements_argument env =
     (if is_colab env then ''requirements_temp.txt'' else ''requirements.txt'')"

text \<open>
  Kinds of effect: a pip install (the command line continues with \<open>-m pip install\<close>
  after the interpreter), the system package-manager install of the toolchain, and any
  subprocess that is waited for.
\<close>

definition is_pip_install :: "event \<Rightarrow> bool" where
  "is_pip_install e =
     (case e of Run cmd extra \<Rightarrow> take 3 (drop 1 cmd) = [''-m'', ''pip'', ''install''] | _ \<Rightarrow> False)"

definition is_apt_install :: "event \<Rightarrow> bool" where
  "is_apt_install e = (e = Run [''apt-get'', ''install'', ''-y'', ''ffmpeg''] [])"


text \<open>
  Every requirement of requirements.txt is already satisfied: the file can be read and
  the version lookup finds the package of every parsed requirement.
\<close>

definition version_known :: "env \<Rightarrow> string \<Rightarrow> bool" where
  "version_known env req =
     (case check_package_version env (package_name_of req) of
        Inr (Some version) \<Rightarrow> True
      | _ \<Rightarrow> False)"

definition requirements_met :: "env \<Rightarrow> world \<Rightarrow> bool" where
  "requirements_met env w =
     (case files w ''requirements.txt'' of
        None \<Rightarrow> False
      | Some content \<Rightarrow> list_all (version_known env) (parse_requirements content))"

text \<open>
  The toolchain check can succeed on the hosted runtime: ffmpeg answers, or both
  apt-get commands succeed.
\<close>

definition toolchain_ready :: "env \<Rightarrow> bool" where
  "toolchain_ready env =
     (proc env [''ffmpeg'', ''-version''] = Returned 0 \<or>
      (proc env [''apt-get'', ''update''] = Returned 0 \<and>
       proc env [''apt-get'', ''install'', ''-y'', ''ffmpeg''] = Returned 0))"

text \<open>
  The first exception raised by the driver-library calls inside the \<^verbatim>\<open>try\<close> block
  of the GPU probe, in the order the probe makes them; \<open>None\<close> when every call returns.
\<close>

fun gpu_loop_raises :: "env \<Rightarrow> nat list \<Rightarrow> py_exc option" where
  "gpu_loop_raises env [] = None"
| "gpu_loop_raises env (i # is) =
     (case nvmlDeviceGetHandleByIndex env i of
        Inl e \<Rightarrow> Some e
      | Inr handle \<Rightarrow>
          (case nvmlDeviceGetName env handle of
             Inl e \<Rightarrow> Some e
           | Inr name \<Rightarrow> gpu_loop_raises env is))"

definition nvml_raises :: "env \<Rightarrow> py_exc option" where
  "nvml_raises env =
     (case nvmlInit env of
        Some e \<Rightarrow> Some e
      | None \<Rightarrow>
          (case nvmlDeviceGetCount env of
             Inl e \<Rightarrow> Some e
           | Inr device_count \<Rightarrow> gpu_loop_raises env [0..<device_count]))"


text \<open>
  More sample environments: a hosted runtime without ffmpeg on which
  \<^verbatim>\<open>apt-get update\<close> fails, a local machine on which the first pip install fails,
  one on which pynvml cannot be imported, and one whose driver reports two devices and
  fails to name the second.
\<close>

definition colab_apt_fails_env :: env where
  "colab_apt_fails_env =
     colab_env\<lparr>proc := (\<lambda>cmd. if cmd = [''ffmpeg'', ''-version''] then NoSuchProgram
                            else if cmd = [''apt-get'', ''update''] then Returned 100
                            else Returned 0)\<rparr>"

definition bootstrap_fails_env :: env where
  "bootstrap_fails_env =
     with_failing [''python'', ''-m'', ''pip'', ''install'', ''requests'', ''rich'', ''ruamel.yaml'']
       (with_ffmpeg local_env)"

definition no_pynvml_env :: env where
  "no_pynvml_env = (with_ffmpeg local_env)\<lparr>importable := (\<lambda>m. m = ''rich'')\<rparr>"

definition faulty_gpu_env :: env where
  "faulty_gpu_env =
     (with_ffmpeg local_env)\<lparr>nvmlInit := None, nvmlDeviceGetCount := Inr 2,
        nvmlDeviceGetName := (\<lambda>h. if h = 1 then Inl NVMLError else Inr ''GPU'')\<rparr>"

section \<open>Properties\<close>

lemmas io_defs = io_bind_def io_then_def io_return_def io_raise_def say_def tell_def emit_def
  check_call_def popen_def read_file_def write_file_def remove_file_def

subsection \<open>Parsing and checking the requirements\<close>



lemma startswith_prefix: "startswith s p \<longleftrightarrow> prefix p s"
  by (induction s p rule: startswith.induct) auto


text \<open>
  On the sample file the comment and the blank line are dropped and five requirements
  remain. A line that has whitespace before its \<open>#\<close> is not a comment line: it is kept,
  stripped, as a requirement.
\<close>

lemma parse_requirements_sample:
  "parse_requirements sample_requirements =
     [''torch==2.0.0'', ''torchaudio'', ''requests'', ''torchvision>=0.15'', ''rich==13.0'']"
  by (simp add: parse_requirements_def sample_requirements_def splitlines_def is_linebreak_def
        strip_def lstrip_def rstrip_def is_space_def)

lemma parse_requirements_indented_hash:
  "parse_requirements ''  # note\<newline>requests'' = [''# note'', ''requests'']"
  by (simp add: parse_requirements_def splitlines_def is_linebreak_def
        strip_def lstrip_def rstrip_def is_space_def)

text \<open>
  C9. Without a requirements.txt the satisfaction check returns False and raises
  nothing, so main never takes the early return of the hosted runtime: it goes on with
  the full installer path.
\<close>

theorem missing_requirements_not_satisfied:
  assumes "files w ''requirements.txt'' = None"
  shows "check_requirements_satisfied env w = Inr False \<and>
         main env w =
           (if \<not> importable env ''rich'' then (Inl ImportError, w)
            else if is_colab env
            then full_install env (emit (Print ''Running in Google Colab environment'') w)
            else full_install env w)"
  using assms by (simp add: check_requirements_satisfied_def main_def emit_def)

theorem missing_requirements_not_satisfied_witness:
  "files empty_world ''requirements.txt'' = None \<and>
   check_requirements_satisfied colab_env empty_world = Inr False \<and>
   main colab_env empty_world =
     full_install colab_env (emit (Print ''Running in Google Colab environment'') empty_world)"
  using missing_requirements_not_satisfied [of empty_world colab_env]
  by (simp add: empty_world_def colab_env_def local_env_def is_colab_def)

subsection \<open>The dependency installer on the hosted runtime\<close>

lemma filter_torch_prefix:
  "filter_torch content =
     join [CHR 0x0A] (filter (\<lambda>l. \<not> prefix ''torch'' l) (splitlines content))"
proof -
  have "[r. r \<leftarrow> ls, \<not> startswith r ''torch''] = filter (\<lambda>l. \<not> prefix ''torch'' l) ls" for ls
    by (induction ls) (simp_all add: startswith_prefix)
  then show ?thesis by (simp add: filter_torch_def)
qed

text \<open>The whole behaviour of the installer step on the hosted runtime, by the outcome of pip.\<close>

lemma install_requirements_colab:
  assumes "is_colab env" and "files w ''requirements.txt'' = Some content"
  shows "install_requirements env w =
     (let cmd = pip_install env [''-r'', ''requirements_temp.txt''];
          w1 = w\<lparr>files := (files w)(''requirements_temp.txt'' \<mapsto> filter_torch content),
                 trace := trace w @ [WriteFile ''requirements_temp.txt'' (filter_torch content),
                                     Run cmd pip_env]\<rparr>
      in case proc env cmd of
           NoSuchProgram \<Rightarrow> (Inl FileNotFoundError, w1)
         | Returned rc \<Rightarrow>
             if rc = 0
             then (Inr (), w1\<lparr>files := (files w)(''requirements_temp.txt'' := None),
                               trace := trace w1 @ [RemoveFile ''requirements_temp.txt'']\<rparr>)
             else (Inr (), w1\<lparr>trace := trace w1 @ [PrintInstallFailed (CalledProcessError cmd rc)]\<rparr>))"
  using assms
  by (simp add: install_requirements_def install_requirements_try_def io_defs Let_def
           split: proc_result.split)

text \<open>
  C10. On the hosted runtime the installer step writes one file, requirements_temp.txt,
  and its content is the lines of requirements.txt without the lines that have the
  prefix \<open>torch\<close>, in their order and joined by newlines. Every other line is kept,
  comment and blank lines included.
\<close>

theorem temp_requirements_content:
  assumes "is_colab env" and "files w ''requirements.txt'' = Some content"
  shows "filter is_write (new_events w (snd (install_requirements env w))) =
           [WriteFile ''requirements_temp.txt''
              (join [CHR 0x0A] (filter (\<lambda>l. \<not> prefix ''torch'' l) (splitlines content)))]"
  using assms
  by (simp add: install_requirements_colab filter_torch_prefix [symmetric] new_events_def
        is_write_def Let_def split: proc_result.split)

lemma sample_lines:
  "splitlines sample_requirements =
     [''torch==2.0.0'', ''torchaudio'', ''requests'', ''# note'', [], ''torchvision>=0.15'',
      ''rich==13.0'']"
  by (simp add: sample_requirements_def splitlines_def is_linebreak_def)

theorem temp_requirements_content_witness:
  "is_colab colab_env \<and> files sample_world ''requirements.txt'' = Some sample_requirements \<and>
   filter is_write (new_events sample_world (snd (install_requirements colab_env sample_world))) =
     [WriteFile ''requirements_temp.txt'' ''requests\<newline># note\<newline>\<newline>rich==13.0'']"
  using temp_requirements_content [of colab_env sample_world sample_requirements]
  by (simp add: is_colab_def colab_env_def local_env_def sample_world_def sample_lines)

text \<open>
  C4. The temporary file is removed only on the path where pip succeeds: the removal
  follows the pip call inside the \<^verbatim>\<open>try\<close> block, so a failing pip skips it. On the
  sample file, with pip returning 1, the installer step returns normally and
  requirements_temp.txt is still there with the filtered content.
\<close>

theorem temp_file_left_behind:
  "is_colab colab_pip_fails_env \<and>
   fst (install_requirements colab_pip_fails_env sample_world) = Inr () \<and>
   files (snd (install_requirements colab_pip_fails_env sample_world)) ''requirements_temp.txt'' =
     Some ''requests\<newline># note\<newline>\<newline>rich==13.0''"
  by (simp add: install_requirements_colab [of _ _ sample_requirements] colab_pip_fails_env_def
        with_failing_def is_colab_def colab_env_def local_env_def sample_world_def pip_install_def
        filter_torch_prefix sample_lines Let_def)

text \<open>When pip succeeds the file is gone after the step.\<close>

lemma temp_file_removed_on_success:
  assumes "is_colab env" and "files w ''requirements.txt'' = Some content"
    and "proc env (pip_install env [''-r'', ''requirements_temp.txt'']) = Returned 0"
  shows "files (snd (install_requirements env w)) ''requirements_temp.txt'' = None"
  using assms by (simp add: install_requirements_colab [of env w content] Let_def)

subsection \<open>A failed dependency install does not stop the setup\<close>

lemma io_then_returned: "fst (m w) = Inr x \<Longrightarrow> io_then m k w = k (snd (m w))"
  by (cases "m w") (simp add: io_then_def io_bind_def)

lemma io_then_raised: "fst (m w) = Inl e \<Longrightarrow> io_then m k w = (Inl e, snd (m w))"
  by (cases "m w") (simp add: io_then_def io_bind_def)

lemma install_requirements_local:
  assumes "\<not> is_colab env"
  shows "install_requirements env w =
     (let cmd = pip_install env [''-r'', ''requirements.txt''];
          w1 = w\<lparr>trace := trace w @ [Run cmd pip_env]\<rparr>
      in case proc env cmd of
           NoSuchProgram \<Rightarrow> (Inl FileNotFoundError, w1)
         | Returned rc \<Rightarrow>
             if rc = 0 then (Inr (), w1)
             else (Inr (), w1\<lparr>trace := trace w1 @ [PrintInstallFailed (CalledProcessError cmd rc)]\<rparr>))"
  using assms
  by (simp add: install_requirements_def install_requirements_try_def io_defs Let_def
           split: proc_result.split)

text \<open>
  C7. When the pip install of the requirements list returns a code other than 0, the
  installer step logs the failure and returns normally, and main goes on from there
  with the toolchain check followed by the closing messages and the launch. (On the
  hosted runtime pip is reached only when requirements.txt could be read.)
\<close>

theorem failed_requirements_install_continues:
  assumes "proc env (pip_install env [''-r'', requirements_argument env]) = Returned rc"
    and "rc \<noteq> 0"
    and "is_colab env \<Longrightarrow> files w ''requirements.txt'' = Some content"
  shows "fst (install_requirements env w) = Inr () \<and>
         last (trace (snd (install_requirements env w))) =
           PrintInstallFailed
             (CalledProcessError (pip_install env [''-r'', requirements_argument env]) rc) \<and>
         install_and_finish env w =
           io_then (check_ffmpeg env) (announce_and_launch env) (snd (install_requirements env w))"
proof -
  have r: "fst (install_requirements env w) = Inr () \<and>
      last (trace (snd (install_requirements env w))) =
        PrintInstallFailed
          (CalledProcessError (pip_install env [''-r'', requirements_argument env]) rc)"
  proof (cases "is_colab env")
    case True
    with assms show ?thesis
      by (simp add: install_requirements_colab [of env w content] requirements_argument_def Let_def)
  next
    case False
    with assms show ?thesis
      by (simp add: install_requirements_local requirements_argument_def Let_def)
  qed
  then have "install_and_finish env w =
      io_then (check_ffmpeg env) (announce_and_launch env) (snd (install_requirements env w))"
    by (simp add: install_and_finish_def io_then_returned)
  with r show ?thesis by simp
qed

theorem failed_requirements_install_continues_witness:
  "proc local_pip_fails_env
     (pip_install local_pip_fails_env [''-r'', requirements_argument local_pip_fails_env]) =
     Returned 1 \<and>
   \<not> is_colab local_pip_fails_env \<and>
   fst (install_requirements local_pip_fails_env empty_world) = Inr () \<and>
   install_and_finish local_pip_fails_env empty_world =
     io_then (check_ffmpeg local_pip_fails_env) (announce_and_launch local_pip_fails_env)
       (snd (install_requirements local_pip_fails_env empty_world)) \<and>
   fst (install_and_finish local_pip_fails_env empty_world) = Inr () \<and>
   trace (snd (install_and_finish local_pip_fails_env empty_world)) =
     [Run [''python'', ''-m'', ''pip'', ''install'', ''-r'', ''requirements.txt''] pip_env,
      PrintInstallFailed
        (CalledProcessError [''python'', ''-m'', ''pip'', ''install'', ''-r'', ''requirements.txt''] 1),
      Run [''ffmpeg'', ''-version''] [],
      Print ''FFmpeg is already installed'',
      Print ''Installation completed'',
      Print ''To start the application, run:'',
      Print ''[bold cyan]streamlit run st.py[/bold cyan]'',
      Print ''[yellow]Note: First startup may take up to 1 minute[/yellow]'',
      Print (CHR 0x0A # ''[yellow]If the application fails to start:[/yellow]''),
      Print ''1. [yellow]Check your network connection[/yellow]'',
      Print ''2. [yellow]Re-run the installer: [bold]python install.py[/bold][/yellow]'',
      Spawn [''streamlit'', ''run'', ''st.py'']]"
proof -
  have e: "proc local_pip_fails_env
       (pip_install local_pip_fails_env [''-r'', requirements_argument local_pip_fails_env]) =
       Returned 1"
    and c: "\<not> is_colab local_pip_fails_env"
    by (simp_all add: local_pip_fails_env_def with_failing_def with_ffmpeg_def local_env_def
          pip_install_def requirements_argument_def is_colab_def)
  have t: "install_and_finish local_pip_fails_env empty_world =
       (Inr (), \<lparr>files = Map.empty, trace =
     [Run [''python'', ''-m'', ''pip'', ''install'', ''-r'', ''requirements.txt''] pip_env,
      PrintInstallFailed
        (CalledProcessError [''python'', ''-m'', ''pip'', ''install'', ''-r'', ''requirements.txt''] 1),
      Run [''ffmpeg'', ''-version''] [],
      Print ''FFmpeg is already installed'',
      Print ''Installation completed'',
      Print ''To start the application, run:'',
      Print ''[bold cyan]streamlit run st.py[/bold cyan]'',
      Print ''[yellow]Note: First startup may take up to 1 minute[/yellow]'',
      Print (CHR 0x0A # ''[yellow]If the application fails to start:[/yellow]''),
      Print ''1. [yellow]Check your network connection[/yellow]'',
      Print ''2. [yellow]Re-run the installer: [bold]python install.py[/bold][/yellow]'',
      Spawn [''streamlit'', ''run'', ''st.py'']]\<rparr>)"
    by (simp add: install_and_finish_def install_requirements_def install_requirements_try_def
          is_colab_def check_ffmpeg_def announce_and_launch_def io_defs Let_def empty_world_def
          local_pip_fails_env_def with_failing_def with_ffmpeg_def local_env_def pip_install_def)
  from failed_requirements_install_continues [of local_pip_fails_env 1 empty_world, OF e] c
  have a: "fst (install_requirements local_pip_fails_env empty_world) = Inr ()"
    and b: "install_and_finish local_pip_fails_env empty_world =
      io_then (check_ffmpeg local_pip_fails_env) (announce_and_launch local_pip_fails_env)
        (snd (install_requirements local_pip_fails_env empty_world))"
    by simp_all
  show ?thesis
    unfolding t fst_conv snd_conv world.simps
    by (intro conjI e c a b [unfolded t] refl)
qed

subsection \<open>Evaluating the sample runs\<close>

lemmas env_defs = local_env_def colab_env_def with_failing_def with_ffmpeg_def
  colab_pip_fails_env_def local_pip_fails_env_def colab_apt_fails_env_def bootstrap_fails_env_def
  no_pynvml_env_def faulty_gpu_env_def

lemmas run_defs = main_def full_install_def install_and_finish_def install_torch_def
  call_choose_mirror_def announce_and_launch_def report_ready_def install_requirements_def
  install_requirements_try_def check_ffmpeg_def ffmpeg_missing_def ffmpeg_guidance_def
  check_nvidia_gpu_def gpu_except_def gpu_try_def install_package_def pip_install_def
  is_colab_def check_requirements_satisfied_def check_package_version_def pip_env_def

lemma sample_world_trace: "trace sample_world = []"
  by (simp add: sample_world_def)

subsection \<open>The toolchain check\<close>

text \<open>The behaviour of the check, by what the environment answers.\<close>

lemma check_ffmpeg_present:
  assumes "importable env ''rich''" and "proc env [''ffmpeg'', ''-version''] = Returned 0"
  shows "check_ffmpeg env w =
     (Inr True, w\<lparr>trace := trace w @ [Run [''ffmpeg'', ''-version''] [],
                                       Print ''FFmpeg is already installed'']\<rparr>)"
  using assms by (simp add: check_ffmpeg_def io_defs)

lemma check_ffmpeg_missing:
  assumes "importable env ''rich''" and "proc env [''ffmpeg'', ''-version''] \<noteq> Returned 0"
  shows "check_ffmpeg env w = ffmpeg_missing env (emit (Run [''ffmpeg'', ''-version''] []) w)"
  using assms by (simp add: check_ffmpeg_def check_call_def Let_def split: proc_result.split)

lemma ffmpeg_missing_colab:
  assumes "is_colab env"
  shows "ffmpeg_missing env w =
     (let w1 = w\<lparr>trace := trace w @ [Run [''apt-get'', ''update''] []]\<rparr>;
          w2 = w\<lparr>trace := trace w @ [Run [''apt-get'', ''update''] [],
                                      Run [''apt-get'', ''install'', ''-y'', ''ffmpeg''] []]\<rparr>
      in case proc env [''apt-get'', ''update''] of
           NoSuchProgram \<Rightarrow> (Inl FileNotFoundError, w1)
         | Returned rc \<Rightarrow>
             if rc \<noteq> 0 then (Inl (CalledProcessError [''apt-get'', ''update''] rc), w1)
             else (case proc env [''apt-get'', ''install'', ''-y'', ''ffmpeg''] of
                     NoSuchProgram \<Rightarrow> (Inl FileNotFoundError, w2)
                   | Returned rc' \<Rightarrow>
                       if rc' \<noteq> 0
                       then (Inl (CalledProcessError [''apt-get'', ''install'', ''-y'', ''ffmpeg''] rc'), w2)
                       else (Inr True, w2\<lparr>trace := trace w2 @ [Print ''FFmpeg has been installed'']\<rparr>)))"
  using assms by (simp add: ffmpeg_missing_def io_defs Let_def split: proc_result.split)

lemma ffmpeg_missing_local:
  assumes "\<not> is_colab env"
  shows "ffmpeg_missing env w =
     (case ffmpeg_guidance (platform_system env) of
        Inl e \<Rightarrow> (Inl e, w)
      | Inr (install_cmd, extra_note) \<Rightarrow>
          (Inl (SystemExit ''FFmpeg is required. Please install it and run the installer again.''),
           w\<lparr>trace := trace w @ [PrintFfmpegNotFound install_cmd extra_note]\<rparr>))"
  using assms by (simp add: ffmpeg_missing_def io_defs split: sum.split prod.split)

text \<open>
  C6. On the hosted runtime, when the toolchain check finds no working ffmpeg, it runs
  \<^verbatim>\<open>apt-get update\<close> first. The install of the toolchain is attempted once when that
  command succeeds and not at all when it fails; the check returns True exactly when
  both commands succeed, and it never returns False.
\<close>

theorem hosted_toolchain_install:
  assumes "is_colab env" and "importable env ''rich''"
    and "proc env [''ffmpeg'', ''-version''] \<noteq> Returned 0"
  shows "length (filter is_apt_install (new_events w (snd (check_ffmpeg env w)))) =
           (if proc env [''apt-get'', ''update''] = Returned 0 then 1 else 0) \<and>
         (fst (check_ffmpeg env w) = Inr True \<longleftrightarrow>
            proc env [''apt-get'', ''update''] = Returned 0 \<and>
            proc env [''apt-get'', ''install'', ''-y'', ''ffmpeg''] = Returned 0) \<and>
         fst (check_ffmpeg env w) \<noteq> Inr False"
  using assms
  by (simp add: check_ffmpeg_missing ffmpeg_missing_colab emit_def Let_def new_events_def
        is_apt_install_def split: proc_result.split)

text \<open>
  As the claim is worded (every hosted run without ffmpeg attempts the install once and
  the check succeeds) it fails when \<^verbatim>\<open>apt-get update\<close> returns 100: the install is
  never attempted and the check raises.
\<close>

theorem hosted_toolchain_install_counterexample:
  "is_colab colab_apt_fails_env \<and>
   proc colab_apt_fails_env [''ffmpeg'', ''-version''] = NoSuchProgram \<and>
   filter is_apt_install (trace (snd (check_ffmpeg colab_apt_fails_env empty_world))) = [] \<and>
   fst (check_ffmpeg colab_apt_fails_env empty_world) =
     Inl (CalledProcessError [''apt-get'', ''update''] 100)"
  by (simp add: run_defs io_defs env_defs empty_world_def is_apt_install_def Let_def)

theorem hosted_toolchain_install_witness:
  "is_colab colab_env \<and> importable colab_env ''rich'' \<and>
   proc colab_env [''ffmpeg'', ''-version''] \<noteq> Returned 0 \<and>
   proc colab_env [''apt-get'', ''update''] = Returned 0 \<and>
   proc colab_env [''apt-get'', ''install'', ''-y'', ''ffmpeg''] = Returned 0 \<and>
   length (filter is_apt_install (new_events empty_world (snd (check_ffmpeg colab_env empty_world)))) = 1 \<and>
   fst (check_ffmpeg colab_env empty_world) = Inr True"
proof -
  have h: "is_colab colab_env" "importable colab_env ''rich''"
    "proc colab_env [''ffmpeg'', ''-version''] \<noteq> Returned 0"
    "proc colab_env [''apt-get'', ''update''] = Returned 0"
    "proc colab_env [''apt-get'', ''install'', ''-y'', ''ffmpeg''] = Returned 0"
    by (simp_all add: is_colab_def env_defs)
  from hosted_toolchain_install [OF h(1,2,3), of empty_world] h show ?thesis by simp
qed

subsection \<open>The early return on the hosted runtime\<close>

lemma all_installed_met:
  "list_all (version_known env) reqs \<Longrightarrow> all_installed env reqs = Inr True"
  by (induction reqs) (auto simp: version_known_def split: sum.splits option.splits)

lemma requirements_met_satisfied:
  "requirements_met env w \<Longrightarrow> check_requirements_satisfied env w = Inr True"
  by (auto simp: requirements_met_def check_requirements_satisfied_def all_installed_met
      split: option.splits)

lemma report_ready_present:
  assumes "importable env ''rich''" and "proc env [''ffmpeg'', ''-version''] = Returned 0"
  shows "report_ready env w =
     (Inr (), w\<lparr>trace := trace w @
        [Print ''All required packages are already installed'',
         Run [''ffmpeg'', ''-version''] [],
         Print ''FFmpeg is already installed'',
         Print ''Ready to use!'',
         Print ''To start the application, run:'',
         Print ''[bold cyan]streamlit run st.py[/bold cyan]'']\<rparr>)"
  using assms by (simp add: report_ready_def check_ffmpeg_present io_defs)

lemma report_ready_missing:
  assumes "is_colab env" and "importable env ''rich''"
    and "proc env [''ffmpeg'', ''-version''] \<noteq> Returned 0"
  shows "report_ready env w =
     (let w1 = w\<lparr>trace := trace w @
                 [Print ''All required packages are already installed'',
                  Run [''ffmpeg'', ''-version''] [],
                  Run [''apt-get'', ''update''] []]\<rparr>;
          w2 = w1\<lparr>trace := trace w1 @ [Run [''apt-get'', ''install'', ''-y'', ''ffmpeg''] []]\<rparr>
      in case proc env [''apt-get'', ''update''] of
           NoSuchProgram \<Rightarrow> (Inl FileNotFoundError, w1)
         | Returned rc \<Rightarrow>
             if rc \<noteq> 0 then (Inl (CalledProcessError [''apt-get'', ''update''] rc), w1)
             else (case proc env [''apt-get'', ''install'', ''-y'', ''ffmpeg''] of
                     NoSuchProgram \<Rightarrow> (Inl FileNotFoundError, w2)
                   | Returned rc' \<Rightarrow>
                       if rc' \<noteq> 0
                       then (Inl (CalledProcessError [''apt-get'', ''install'', ''-y'', ''ffmpeg''] rc'), w2)
                       else (Inr (), w2\<lparr>trace := trace w2 @
                               [Print ''FFmpeg has been installed'',
                                Print ''Ready to use!'',
                                Print ''To start the application, run:'',
                                Print ''[bold cyan]streamlit run st.py[/bold cyan]'']\<rparr>)))"
  using assms
  by (simp add: report_ready_def check_ffmpeg_missing ffmpeg_missing_colab io_defs Let_def
        split: proc_result.split)

lemma main_requirements_met:
  assumes "is_colab env" and "importable env ''rich''" and "requirements_met env w"
  shows "main env w = report_ready env (emit (Print ''Running in Google Colab environment'') w)"
proof -
  have "requirements_met env (emit (Print ''Running in Google Colab environment'') w)"
    using assms(3) by (simp add: requirements_met_def emit_def)
  then show ?thesis
    using assms(1,2) by (simp add: main_def requirements_met_satisfied Let_def)
qed

lemma hosted_early_return:
  assumes "is_colab env" and "importable env ''rich''" and "requirements_met env w"
    and "toolchain_ready env"
  shows "fst (main env w) = Inr ()"
proof (cases "proc env [''ffmpeg'', ''-version''] = Returned 0")
  case True
  with assms(2) show ?thesis
    unfolding main_requirements_met [OF assms(1,2,3)] by (simp add: report_ready_present)
next
  case False
  with assms show ?thesis
    unfolding main_requirements_met [OF assms(1,2,3)]
    by (simp add: report_ready_missing toolchain_ready_def Let_def)
qed

text \<open>
  C5. On the hosted runtime with every requirement satisfied, main attempts no pip
  install. When rich can be imported it takes the early path: it returns normally, with
  readiness reported, exactly when the toolchain check can succeed.
\<close>

theorem satisfied_hosted_run_skips_install:
  assumes "is_colab env" and "requirements_met env w"
  shows "filter is_pip_install (new_events w (snd (main env w))) = [] \<and>
         (importable env ''rich'' \<longrightarrow>
            main env w = report_ready env (emit (Print ''Running in Google Colab environment'') w) \<and>
            (fst (main env w) = Inr () \<longleftrightarrow> toolchain_ready env) \<and>
            (Print ''Ready to use!'' \<in> set (new_events w (snd (main env w))) \<longleftrightarrow>
               toolchain_ready env))"
proof (cases "importable env ''rich''")
  case False
  then show ?thesis by (simp add: main_def new_events_def)
next
  case rich: True
  note m = main_requirements_met [OF assms(1) rich assms(2)]
  show ?thesis
  proof (cases "proc env [''ffmpeg'', ''-version''] = Returned 0")
    case True
    with rich show ?thesis
      unfolding m
      by (simp add: report_ready_present emit_def new_events_def is_pip_install_def
            toolchain_ready_def)
  next
    case False
    with rich assms(1) show ?thesis
      unfolding m
      by (simp add: report_ready_missing emit_def new_events_def is_pip_install_def
            toolchain_ready_def Let_def split: proc_result.split)
  qed
qed

lemma sample_requirements_met: "requirements_met colab_env sample_world"
  and sample_requirements_met_apt: "requirements_met colab_apt_fails_env sample_world"
  by (simp_all add: requirements_met_def sample_world_def parse_requirements_sample
        version_known_def check_package_version_def env_defs)

text \<open>
  As the claim is worded (main returns after reporting readiness in every such run) it
  fails when the toolchain is missing and \<^verbatim>\<open>apt-get update\<close> fails: the exception
  leaves main and readiness is not reported.
\<close>

theorem satisfied_hosted_run_counterexample:
  "is_colab colab_apt_fails_env \<and>
   requirements_met colab_apt_fails_env sample_world \<and>
   check_requirements_satisfied colab_apt_fails_env sample_world = Inr True \<and>
   fst (main colab_apt_fails_env sample_world) =
     Inl (CalledProcessError [''apt-get'', ''update''] 100) \<and>
   Print ''Ready to use!'' \<notin> set (trace (snd (main colab_apt_fails_env sample_world)))"
proof -
  have c: "is_colab colab_apt_fails_env" and r: "importable colab_apt_fails_env ''rich''"
    and f: "proc colab_apt_fails_env [''ffmpeg'', ''-version''] \<noteq> Returned 0"
    and u: "proc colab_apt_fails_env [''apt-get'', ''update''] = Returned 100"
    by (simp_all add: is_colab_def env_defs)
  have m: "main colab_apt_fails_env sample_world =
      report_ready colab_apt_fails_env
        (emit (Print ''Running in Google Colab environment'') sample_world)"
    using c r sample_requirements_met_apt by (rule main_requirements_met)
  show ?thesis
    using c sample_requirements_met_apt requirements_met_satisfied [OF sample_requirements_met_apt]
    by (simp add: m report_ready_missing [OF c r f] u Let_def emit_def sample_world_trace)
qed

theorem satisfied_hosted_run_skips_install_witness:
  "is_colab colab_env \<and> requirements_met colab_env sample_world \<and>
   importable colab_env ''rich'' \<and> toolchain_ready colab_env \<and>
   filter is_pip_install (new_events sample_world (snd (main colab_env sample_world))) = [] \<and>
   fst (main colab_env sample_world) = Inr () \<and>
   Print ''Ready to use!'' \<in> set (new_events sample_world (snd (main colab_env sample_world)))"
proof -
  have h: "is_colab colab_env" "importable colab_env ''rich''" "toolchain_ready colab_env"
    by (simp_all add: is_colab_def toolchain_ready_def env_defs)
  from satisfied_hosted_run_skips_install [OF h(1) sample_requirements_met] h sample_requirements_met
  show ?thesis by blast
qed

subsection \<open>Steps only add to the trace\<close>
















subsection \<open>The missing toolchain on a local machine\<close>

lemma io_bind_returnsD: "fst (io_bind m f w) = Inr y \<Longrightarrow> \<exists>x w'. fst (f x w') = Inr y"
  by (cases "m w") (auto simp: io_bind_def split: sum.splits)

lemma io_then_returnsD: "fst (io_then m k w) = Inr y \<Longrightarrow> \<exists>w'. fst (k w') = Inr y"
  unfolding io_then_def by (drule io_bind_returnsD) blast

lemma check_ffmpeg_local_raises:
  assumes "\<not> is_colab env" and "proc env [''ffmpeg'', ''-version''] \<noteq> Returned 0"
  shows "fst (check_ffmpeg env w) \<noteq> Inr x"
proof (cases "importable env ''rich''")
  case False
  then show ?thesis by (simp add: check_ffmpeg_def)
next
  case True
  with assms show ?thesis
    by (simp add: check_ffmpeg_missing ffmpeg_missing_local split: sum.split prod.split)
qed

lemma full_install_local_raises:
  assumes "\<not> is_colab env" and "proc env [''ffmpeg'', ''-version''] \<noteq> Returned 0"
  shows "fst (full_install env w) \<noteq> Inr ()"
proof
  assume "fst (full_install env w) = Inr ()"
  then obtain w1 where "fst (install_and_finish env w1) = Inr ()"
    unfolding full_install_def
    by (blast dest: io_then_returnsD)
  then obtain w2 where "fst (io_then (check_ffmpeg env) (announce_and_launch env) w2) = Inr ()"
    unfolding install_and_finish_def by (blast dest: io_then_returnsD)
  then obtain x where "fst (check_ffmpeg env w2) = Inr x"
    by (cases "check_ffmpeg env w2") (auto simp: io_then_def io_bind_def split: sum.splits)
  with check_ffmpeg_local_raises [OF assms] show False by blast
qed

lemma main_local: "\<not> is_colab env \<Longrightarrow> importable env ''rich'' \<Longrightarrow> main env w = full_install env w"
  by (simp add: main_def)

lemma exit_code_local_missing:
  assumes "\<not> is_colab env" and "proc env [''ffmpeg'', ''-version''] \<noteq> Returned 0"
  shows "exit_code env w = 1"
proof (cases "importable env ''rich''")
  case False
  then show ?thesis by (simp add: exit_code_def main_def)
next
  case True
  with assms(1) have "main env w = full_install env w" by (rule main_local)
  with full_install_local_raises [OF assms, of w] show ?thesis
    by (simp add: exit_code_def split: sum.split)
qed







subsection \<open>Exit codes\<close>

text \<open>
  C8. The exit code is 0 exactly when main returns normally and 1 exactly when an
  exception leaves it. It is 1 for every run on a local machine without a working
  ffmpeg, and 0 on the early return of the hosted runtime when the toolchain check can
  succeed. The missing toolchain is not the only cause of a non-zero exit: a failing
  pip install of the bootstrap packages gives exit code 1 as well.
\<close>

theorem exit_code_cases:
  "(exit_code env w = 0 \<longleftrightarrow> fst (main env w) = Inr ()) \<and>
   (exit_code env w = 1 \<longleftrightarrow> (\<exists>e. fst (main env w) = Inl e)) \<and>
   (\<not> is_colab env \<and> proc env [''ffmpeg'', ''-version''] \<noteq> Returned 0 \<longrightarrow> exit_code env w = 1) \<and>
   (is_colab env \<and> importable env ''rich'' \<and> requirements_met env w \<and> toolchain_ready env \<longrightarrow>
      exit_code env w = 0) \<and>
   (\<not> is_colab env \<and>
    proc env (pip_install env [''requests'', ''rich'', ''ruamel.yaml'']) \<noteq> Returned 0 \<longrightarrow>
      exit_code env w = 1)"
proof -
  have a: "exit_code env w = 0 \<longleftrightarrow> fst (main env w) = Inr ()"
    and b: "exit_code env w = 1 \<longleftrightarrow> (\<exists>e. fst (main env w) = Inl e)"
    by (auto simp: exit_code_def split: sum.splits)
  have c: "exit_code env w = 0"
    if "is_colab env" "importable env ''rich''" "requirements_met env w" "toolchain_ready env"
  proof -
    from that have "fst (main env w) = Inr ()" by (rule hosted_early_return)
    with a show ?thesis by simp
  qed
  have d: "exit_code env w = 1"
    if "\<not> is_colab env"
      "proc env (pip_install env [''requests'', ''rich'', ''ruamel.yaml'']) \<noteq> Returned 0"
  proof (cases "importable env ''rich''")
    case False
    then show ?thesis by (simp add: exit_code_def main_def)
  next
    case True
    with that show ?thesis
      by (simp add: exit_code_def main_local full_install_def install_package_def io_defs Let_def
            split: proc_result.split)
  qed
  from a b c d exit_code_local_missing [of env w] show ?thesis by blast
qed

text \<open>
  As the claim is worded (non-zero exactly when the toolchain is missing) it fails on a
  local machine where ffmpeg is present and the first pip install returns 1.
\<close>

theorem exit_code_counterexample:
  "\<not> is_colab bootstrap_fails_env \<and>
   proc bootstrap_fails_env [''ffmpeg'', ''-version''] = Returned 0 \<and>
   fst (main bootstrap_fails_env empty_world) =
     Inl (CalledProcessError
       [''python'', ''-m'', ''pip'', ''install'', ''requests'', ''rich'', ''ruamel.yaml''] 1) \<and>
   exit_code bootstrap_fails_env empty_world = 1"
  by (simp add: exit_code_def run_defs io_defs env_defs empty_world_def Let_def)

lemma full_run_returns: "fst (main (with_ffmpeg local_env) sample_world) = Inr ()"
  by (simp add: run_defs io_defs env_defs sample_world_def Let_def)

theorem exit_code_cases_witness:
  "(\<not> is_colab local_env \<and> proc local_env [''ffmpeg'', ''-version''] \<noteq> Returned 0 \<and>
    exit_code local_env sample_world = 1) \<and>
   (is_colab colab_env \<and> importable colab_env ''rich'' \<and> requirements_met colab_env sample_world \<and>
    toolchain_ready colab_env \<and> exit_code colab_env sample_world = 0) \<and>
   (\<not> is_colab bootstrap_fails_env \<and>
    proc bootstrap_fails_env
      (pip_install bootstrap_fails_env [''requests'', ''rich'', ''ruamel.yaml'']) \<noteq> Returned 0 \<and>
    exit_code bootstrap_fails_env empty_world = 1) \<and>
   (fst (main (with_ffmpeg local_env) sample_world) = Inr () \<and>
    exit_code (with_ffmpeg local_env) sample_world = 0)"
proof -
  have a: "\<not> is_colab local_env" "proc local_env [''ffmpeg'', ''-version''] \<noteq> Returned 0"
    by (simp_all add: is_colab_def env_defs)
  have b: "is_colab colab_env" "importable colab_env ''rich''" "toolchain_ready colab_env"
    by (simp_all add: is_colab_def toolchain_ready_def env_defs)
  have c: "\<not> is_colab bootstrap_fails_env"
    "proc bootstrap_fails_env
       (pip_install bootstrap_fails_env [''requests'', ''rich'', ''ruamel.yaml'']) \<noteq> Returned 0"
    by (simp_all add: is_colab_def pip_install_def env_defs)
  from exit_code_cases [of local_env sample_world] exit_code_cases [of colab_env sample_world]
    exit_code_cases [of bootstrap_fails_env empty_world]
    exit_code_cases [of "with_ffmpeg local_env" sample_world]
    a b c sample_requirements_met full_run_returns
  show ?thesis by blast
qed

subsection \<open>The GPU probe\<close>

lemma print_gpus_result:
  "fst (print_gpus env is w) = (case gpu_loop_raises env is of None \<Rightarrow> Inr () | Some e \<Rightarrow> Inl e)"
  by (induction "is" arbitrary: w) (auto split: sum.splits)

lemma gpu_try_raises: "nvml_raises env = Some e \<Longrightarrow> fst (gpu_try env w) = Inl e"
proof -
  assume r: "nvml_raises env = Some e"
  show ?thesis
  proof (cases "nvmlInit env")
    case (Some e')
    with r show ?thesis by (simp add: nvml_raises_def gpu_try_def)
  next
    case None
    show ?thesis
    proof (cases "nvmlDeviceGetCount env")
      case (Inl e')
      with r None show ?thesis by (simp add: nvml_raises_def gpu_try_def)
    next
      case (Inr n)
      with r None have l: "gpu_loop_raises env [0..<n] = Some e"
        by (simp add: nvml_raises_def)
      then have "n > 0" by (cases n) auto
      moreover have "fst (print_gpus env [0..<n] w') = Inl e" for w'
        using l by (simp add: print_gpus_result)
      ultimately show ?thesis
        using None Inr
        by (simp add: gpu_try_def io_then_raised io_then_returned say_def)
    qed
  qed
qed

text \<open>
  C2. When pynvml has been installed and imported, a driver-library call inside the
  \<^verbatim>\<open>try\<close> block raises \<open>NVMLError\<close>, and the \<^verbatim>\<open>nvmlShutdown\<close> call of the
  \<^verbatim>\<open>finally\<close> clause returns, the probe prints the no-GPU message and returns False.
\<close>

theorem gpu_probe_driver_error:
  assumes "proc env (pip_install env [''pynvml'']) = Returned 0"
    and "importable env ''pynvml''"
    and "nvml_raises env = Some NVMLError"
    and "nvmlShutdown env = None"
  shows "fst (check_nvidia_gpu env w) = Inr False \<and>
         last (trace (snd (check_nvidia_gpu env w))) =
           Print ''No NVIDIA GPU detected or NVIDIA drivers not properly installed''"
proof -
  let ?w1 = "emit (Run (pip_install env [''pynvml'']) []) w"
  have i: "install_package env [''pynvml''] w = (Inr (), ?w1)"
    using assms(1) by (simp add: install_package_def check_call_def Let_def)
  obtain w2 where t: "gpu_try env ?w1 = (Inl NVMLError, w2)"
    using gpu_try_raises [OF assms(3), of ?w1] by (cases "gpu_try env ?w1") simp
  then have "gpu_except env ?w1 =
      (Inr False, emit (Print ''No NVIDIA GPU detected or NVIDIA drivers not properly installed'') w2)"
    by (simp add: gpu_except_def io_defs)
  with i assms(2,4) show ?thesis
    by (simp add: check_nvidia_gpu_def io_then_def io_bind_def emit_def)
qed

theorem gpu_probe_driver_error_witness:
  "proc faulty_gpu_env (pip_install faulty_gpu_env [''pynvml'']) = Returned 0 \<and>
   importable faulty_gpu_env ''pynvml'' \<and>
   nvml_raises faulty_gpu_env = Some NVMLError \<and>
   nvmlShutdown faulty_gpu_env = None \<and>
   fst (check_nvidia_gpu faulty_gpu_env empty_world) = Inr False"
proof -
  have h: "proc faulty_gpu_env (pip_install faulty_gpu_env [''pynvml'']) = Returned 0"
    "importable faulty_gpu_env ''pynvml''"
    "nvmlShutdown faulty_gpu_env = None"
    by (simp_all add: faulty_gpu_env_def with_ffmpeg_def local_env_def)
  have r: "nvml_raises faulty_gpu_env = Some NVMLError"
    by (simp add: nvml_raises_def faulty_gpu_env_def with_ffmpeg_def local_env_def upt_rec)
  from gpu_probe_driver_error [OF h(1,2) r h(3), of empty_world] h r show ?thesis by simp
qed

text \<open>
  As the claim is worded (an unavailable library gives False) it fails when pynvml
  cannot be imported: the import stands before the \<^verbatim>\<open>try\<close> block, and the
  \<open>ImportError\<close> reaches the caller.
\<close>

theorem gpu_probe_import_counterexample:
  "proc no_pynvml_env (pip_install no_pynvml_env [''pynvml'']) = Returned 0 \<and>
   \<not> importable no_pynvml_env ''pynvml'' \<and>
   fst (check_nvidia_gpu no_pynvml_env empty_world) = Inl ImportError"
  by (simp add: no_pynvml_env_def with_ffmpeg_def local_env_def check_nvidia_gpu_def
        install_package_def pip_install_def io_defs Let_def)

end
